theory Spec2Isabelle
  imports Main "HOL-Library.Word" "HOL-Library.Multiset"
begin

section \<open>Values, documents and errors\<close>

text \<open>
  The dynamic values that travel through \<open>interface{}\<close> arguments and document
  elements. The respond path only distinguishes strings from everything else (the type
  assertion \<open>args[idx].(string)\<close>) and builds the literals \<open>1\<close>, \<open>0\<close> and a message.
\<close>

datatype go_value = VString string | VInt int | VBool bool | VNil

text \<open>\<open>bson.D\<close>: an ordered list of \<open>bson.DocElem{Name, Value}\<close>.\<close>

type_synonym bson_D = "(string \<times> go_value) list"

text \<open>
  Modelled from the spec: the \<open>MongoError\<close> type is declared outside this file. An error
  value carries its message (\<open>Error()\<close>) and, optionally, the error-to-document
  capability (\<open>ToBSON()\<close>); the assertion \<open>err.(MongoError)\<close> succeeds exactly when
  the capability is present. A nil error is \<open>None\<close> of \<open>go_error option\<close>.
\<close>

record go_error =
  Error :: string
  ToBSON :: "bson_D option"

text \<open>\<open>errors.New\<close> and \<open>fmt.Errorf\<close> return a plain error holding the text.\<close>

definition errors_New :: "string \<Rightarrow> go_error" where
  "errors_New msg = \<lparr>Error = msg, ToBSON = None\<rparr>"

text \<open>
  Modelled from the spec: \<open>NewStackErrorf\<close> is declared outside this file; it wraps the
  formatted text in an error (the call stack it also records is not represented).
\<close>

definition NewStackErrorf :: "string \<Rightarrow> go_error" where
  "NewStackErrorf msg = \<lparr>Error = msg, ToBSON = None\<rparr>"

definition ErrUnknownOpcode :: go_error where
  "ErrUnknownOpcode = errors_New ''unknown opcode''"

subsection \<open>The formatting verbs the file uses\<close>

fun fmt_nat :: "nat \<Rightarrow> string" where
  "fmt_nat n =
     (if n < 10 then [''0123456789'' ! n]
      else fmt_nat (n div 10) @ [''0123456789'' ! (n mod 10)])"

declare fmt_nat.simps [simp del]

text \<open>\<open>%d\<close> on an integer.\<close>

definition fmt_d :: "int \<Rightarrow> string" where
  "fmt_d i = (if i < 0 then CHR ''-'' # fmt_nat (nat (- i)) else fmt_nat (nat i))"

text \<open>\<open>%s\<close> on an \<open>error\<close> operand: the message, or Go's rendering of a nil interface.\<close>

definition fmt_s :: "go_error option \<Rightarrow> string" where
  "fmt_s err = (case err of None \<Rightarrow> ''%!s(<nil>)'' | Some e \<Rightarrow> Error e)"

text \<open>\<open>%t\<close> on a dynamic value: a boolean prints, any other type is a bad verb.\<close>

definition fmt_t :: "go_value \<Rightarrow> string" where
  "fmt_t v =
     (case v of
        VBool b \<Rightarrow> (if b then ''true'' else ''false'')
      | VInt i \<Rightarrow> ''%!t(int='' @ fmt_d i @ '')''
      | VString s \<Rightarrow> ''%!t(string='' @ s @ '')''
      | VNil \<Rightarrow> ''%!t(<nil>)'')"

section \<open>Messages\<close>

text \<open>
  The opcode constants are declared outside this file. The \<open>switch\<close> statements of the
  respond path list seven of them as distinct cases and build replies with two more;
  they are modelled as an enumeration, in which \<open>OP_KILL_CURSORS\<close> stands for the
  opcodes that no case names.
\<close>

datatype OpCode =
    OP_REPLY | OP_UPDATE | OP_INSERT | OP_QUERY | OP_GET_MORE | OP_DELETE
  | OP_KILL_CURSORS | OP_COMMAND | OP_COMMAND_REPLY | OP_MSG

text \<open>
  Modelled from the spec: the header is payload length, sender-assigned request id,
  correlation id and opcode, in this order (the order of the positional literals
  \<open>MessageHeader{0, 17, ..., OP_REPLY}\<close>).
\<close>

record MessageHeader =
  Size :: "32 word"
  RequestID :: "32 word"
  ResponseTo :: "32 word"
  OpCode :: OpCode

text \<open>A request is read only through \<open>Header()\<close> on the respond path.\<close>

record Message =
  Header :: MessageHeader

text \<open>
  The three reply frames, with the fields of the positional struct literals in the
  source, in their order. The type parameter \<open>'d\<close> is the opaque wire-ready document
  (\<open>SimpleBSON\<close>).
\<close>

datatype 'd MessageMessageSection = BodySection 'd

datatype 'd wire_message =
    ReplyMessage MessageHeader "32 word" "64 word" "32 word" "32 word" "'d list"
  | CommandReplyMessage MessageHeader 'd 'd "'d list"
  | MessageMessage MessageHeader "32 word" "'d MessageMessageSection list"

fun header_of :: "'d wire_message \<Rightarrow> MessageHeader" where
  "header_of (ReplyMessage h flags cursorId startingFrom numberReturned docs) = h"
| "header_of (CommandReplyMessage h reply metadata outputDocs) = h"
| "header_of (MessageMessage h flags sections) = h"

section \<open>Connection, session and the external collaborators\<close>

text \<open>
  The connection of a session, observed through the frames handed to the serializer, in
  call order.
\<close>

record 'd Conn =
  written :: "'d wire_message list"

record 'd Session =
  conn :: "'d Conn"
  remoteAddr :: string
  SSLServerName :: string

text \<open>
  The document codec and the serializer are declared outside this file and are
  parameters of the model: \<open>SimpleBSONConvert\<close> may fail, \<open>SimpleBSONEmpty\<close> is the
  canonical empty document, and \<open>write_result\<close> is the error (or nil) that the
  serializer reports for a frame on a connection.
\<close>

record 'd env =
  SimpleBSONConvert :: "bson_D \<Rightarrow> go_error + 'd"
  SimpleBSONEmpty :: 'd
  write_result :: "'d wire_message \<Rightarrow> 'd Conn \<Rightarrow> go_error option"

text \<open>
  Modelled from the spec: \<open>SendMessage(message, connection)\<close> writes one complete frame
  on the connection and returns the serializer's error.
\<close>

definition SendMessage ::
  "'d env \<Rightarrow> 'd wire_message \<Rightarrow> 'd Conn \<Rightarrow> go_error option \<times> 'd Conn" where
  "SendMessage env rm c = (write_result env rm c, c\<lparr>written := written c @ [rm]\<rparr>)"

section \<open>The response framer\<close>

text \<open>
  \<open>Session.RespondToCommand\<close>. The result is the returned error (\<open>None\<close> is nil)
  and the connection afterwards.
\<close>

definition RespondToCommand ::
  "'d env \<Rightarrow> 'd Session \<Rightarrow> Message \<Rightarrow> 'd \<Rightarrow> go_error option \<times> 'd Conn" where
  "RespondToCommand env s clientMessage doc =
     (case OpCode (Header clientMessage) of
        OP_QUERY \<Rightarrow>
          SendMessage env
            (ReplyMessage
               \<lparr>Size = 0, RequestID = 17,
                ResponseTo = RequestID (Header clientMessage), OpCode = OP_REPLY\<rparr>
               0 0 0 1 [doc])
            (conn s)
      | OP_INSERT \<Rightarrow> (None, conn s)
      | OP_UPDATE \<Rightarrow> (None, conn s)
      | OP_DELETE \<Rightarrow> (None, conn s)
      | OP_COMMAND \<Rightarrow>
          SendMessage env
            (CommandReplyMessage
               \<lparr>Size = 0, RequestID = 17,
                ResponseTo = RequestID (Header clientMessage), OpCode = OP_COMMAND_REPLY\<rparr>
               doc (SimpleBSONEmpty env) [])
            (conn s)
      | OP_MSG \<Rightarrow>
          SendMessage env
            (MessageMessage
               \<lparr>Size = 0, RequestID = 17,
                ResponseTo = RequestID (Header clientMessage), OpCode = OP_MSG\<rparr>
               0 [BodySection doc])
            (conn s)
      | _ \<Rightarrow> (Some ErrUnknownOpcode, conn s))"

text \<open>
  \<open>Session.RespondWithError\<close>, in its three parts: the document chosen for the error
  (lines 195-202), the conversion with its early return (204-207), and the opcode
  switch (209-264).
\<close>

definition errBSON :: "go_error option \<Rightarrow> bson_D" where
  "errBSON err =
     (case err of
        None \<Rightarrow> [(''ok'', VInt 1)]
      | Some e \<Rightarrow>
          (case ToBSON e of
             Some d \<Rightarrow> d
           | None \<Rightarrow> [(''ok'', VInt 0), (''errmsg'', VString (Error e))]))"

definition RespondWithError_switch ::
  "'d env \<Rightarrow> 'd Session \<Rightarrow> Message \<Rightarrow> 'd \<Rightarrow> go_error option \<times> 'd Conn" where
  "RespondWithError_switch env s clientMessage doc =
     (case OpCode (Header clientMessage) of
        OP_QUERY \<Rightarrow>
          SendMessage env
            (ReplyMessage
               \<lparr>Size = 0, RequestID = 17,
                ResponseTo = RequestID (Header clientMessage), OpCode = OP_REPLY\<rparr>
               0 0 0 1 [doc])
            (conn s)
      | OP_GET_MORE \<Rightarrow>
          SendMessage env
            (ReplyMessage
               \<lparr>Size = 0, RequestID = 17,
                ResponseTo = RequestID (Header clientMessage), OpCode = OP_REPLY\<rparr>
               0 0 0 1 [doc])
            (conn s)
      | OP_INSERT \<Rightarrow> (None, conn s)
      | OP_UPDATE \<Rightarrow> (None, conn s)
      | OP_DELETE \<Rightarrow> (None, conn s)
      | OP_COMMAND \<Rightarrow>
          SendMessage env
            (CommandReplyMessage
               \<lparr>Size = 0, RequestID = 17,
                ResponseTo = RequestID (Header clientMessage), OpCode = OP_COMMAND_REPLY\<rparr>
               doc (SimpleBSONEmpty env) [])
            (conn s)
      | OP_MSG \<Rightarrow>
          SendMessage env
            (MessageMessage
               \<lparr>Size = 0, RequestID = 17,
                ResponseTo = RequestID (Header clientMessage), OpCode = OP_MSG\<rparr>
               0 [BodySection doc])
            (conn s)
      | _ \<Rightarrow> (Some ErrUnknownOpcode, conn s))"

definition RespondWithError ::
  "'d env \<Rightarrow> 'd Session \<Rightarrow> Message \<Rightarrow> go_error option \<Rightarrow> go_error option \<times> 'd Conn" where
  "RespondWithError env s clientMessage err =
     (case SimpleBSONConvert env (errBSON err) of
        Inl myErr \<Rightarrow> (Some myErr, conn s)
      | Inr doc \<Rightarrow> RespondWithError_switch env s clientMessage doc)"

text \<open>
  The loop of \<open>Session.RespondToCommandMakeBSON\<close> (lines 113-122), by index as in the
  source. \<open>None\<close> is the run-time panic of reading \<open>args[idx+1]\<close> out of range.
\<close>

function MakeBSON_loop ::
  "go_value list \<Rightarrow> nat \<Rightarrow> bson_D \<Rightarrow> bool \<Rightarrow> (go_error + bson_D \<times> bool) option" where
  "MakeBSON_loop args idx doc gotOk =
     (if idx < length args then
        (case args ! idx of
           VString name \<Rightarrow>
             (if idx + 1 < length args then
                MakeBSON_loop args (idx + 2) (doc @ [(name, args ! (idx + 1))])
                  (if name = ''ok'' then True else gotOk)
              else None)
         | v \<Rightarrow> Some (Inl (errors_New (''got a non string for bson name: '' @ fmt_t v))))
      else Some (Inr (doc, gotOk)))"
  by pat_completeness auto
termination
  by (relation "measure (\<lambda>(args, idx, doc, gotOk). length args - idx)") auto

declare MakeBSON_loop.simps [simp del]

text \<open>
  \<open>Session.RespondToCommandMakeBSON\<close>, in its two parts: the assembly of the
  document (lines 106-126), whose failures return before any conversion or write, and
  the conversion and reply (128-132). \<open>None\<close> is a panic.
\<close>

definition MakeBSON_doc :: "go_value list \<Rightarrow> (go_error + bson_D) option" where
  "MakeBSON_doc args =
     (if length args mod 2 = 1 then
        Some (Inl (errors_New (''magic bson has to be even # of args, got ''
                                 @ fmt_d (int (length args)))))
      else
        (case MakeBSON_loop args 0 [] False of
           None \<Rightarrow> None
         | Some (Inl e) \<Rightarrow> Some (Inl e)
         | Some (Inr (doc, gotOk)) \<Rightarrow>
             Some (Inr (if \<not> gotOk then doc @ [(''ok'', VInt 1)] else doc))))"

definition RespondToCommandMakeBSON ::
  "'d env \<Rightarrow> 'd Session \<Rightarrow> Message \<Rightarrow> go_value list \<Rightarrow> (go_error option \<times> 'd Conn) option"
  where
  "RespondToCommandMakeBSON env s clientMessage args =
     (case MakeBSON_doc args of
        None \<Rightarrow> None
      | Some (Inl e) \<Rightarrow> Some (Some e, conn s)
      | Some (Inr doc) \<Rightarrow>
          (case SimpleBSONConvert env doc of
             Inl err \<Rightarrow> Some (Some err, conn s)
           | Inr doc2 \<Rightarrow> Some (RespondToCommand env s clientMessage doc2)))"

section \<open>The lifecycle manager\<close>

subsection \<open>Channels\<close>

text \<open>
  A channel is its capacity, the values waiting in its buffer and whether it has been
  closed. An operation returns, blocks or panics, as in Go: sending on or closing a
  closed channel panics, sending with no room blocks, receiving from an empty open
  channel blocks, and receiving from an empty closed channel returns at once.
\<close>

record 'a chan =
  cap :: nat
  buf :: "'a list"
  is_closed :: bool

datatype 'a outcome = Returns 'a | Blocks | Panics

definition make_chan :: "nat \<Rightarrow> 'a chan" where
  "make_chan n = \<lparr>cap = n, buf = [], is_closed = False\<rparr>"

definition chan_close :: "'a chan \<Rightarrow> 'a chan outcome" where
  "chan_close c = (if is_closed c then Panics else Returns (c\<lparr>is_closed := True\<rparr>))"

definition chan_send :: "'a chan \<Rightarrow> 'a \<Rightarrow> 'a chan outcome" where
  "chan_send c v =
     (if is_closed c then Panics
      else if length (buf c) < cap c then Returns (c\<lparr>buf := buf c @ [v]\<rparr>)
      else Blocks)"

definition chan_recv :: "'a chan \<Rightarrow> ('a option \<times> 'a chan) outcome" where
  "chan_recv c =
     (case buf c of
        v # vs \<Rightarrow> Returns (Some v, c\<lparr>buf := vs\<rparr>)
      | [] \<Rightarrow> (if is_closed c then Returns (None, c) else Blocks))"

subsection \<open>Configuration, server and network\<close>

record SSLPair =
  CertFile :: string
  KeyFile :: string

text \<open>\<open>ServerConfig\<close>, without its logging fields.\<close>

record ServerConfig =
  BindHost :: string
  BindPort :: int
  UseSSL :: bool
  SSLKeys :: "SSLPair list"
  MinTlsVersion :: "16 word"
  TCPKeepAlivePeriod :: int

record tls_Config =
  Certificates :: "string list"
  MinVersion :: "16 word"

datatype conn_type = TCPConn | OtherConn

text \<open>
  An accepted connection: its dynamic type, its peer, the keep-alive period set on it
  and the TLS configuration wrapped around it, if any.
\<close>

record net_Conn =
  conn_type :: conn_type
  RemoteAddr :: string
  KeepAlivePeriod :: "int option"
  tls_Server :: "tls_Config option"

text \<open>
  \<open>Server\<close>: the configuration, the three lifecycle channels and the resolved address
  (the logger and the worker factory are left out). Two more fields observe what
  \<open>Run\<close> does outside the struct: whether the listening socket is open, and the
  connections handed to the session tasks it started, in order.
\<close>

record Server =
  config :: ServerConfig
  killChan :: "unit chan"
  initChan :: "go_error option chan"
  doneChan :: "unit chan"
  Addr :: "string option"
  listening :: bool
  sessions :: "net_Conn list"

definition NewServer :: "ServerConfig \<Rightarrow> Server" where
  "NewServer cfg =
     \<lparr>config = cfg, killChan = make_chan 0, initChan = make_chan 1, doneChan = make_chan 0,
      Addr = None, listening = False, sessions = []\<rparr>"

text \<open>
  The operating system as \<open>Run\<close> meets it: loading a certificate pair, and
  \<open>net.Listen\<close>, which returns the listener's resolved address and an error, as the
  two results of the Go call.
\<close>

record net =
  LoadX509KeyPair :: "string \<Rightarrow> string \<Rightarrow> go_error + string"
  Listen :: "string \<Rightarrow> string \<times> go_error option"

text \<open>
  What one \<open>select\<close> of the accept loop receives: the shutdown request (\<open>killChan\<close>
  is closed by \<open>Close\<close>, which runs in another task), or the \<open>accepted{conn, err}\<close>
  value of the background accept.
\<close>

datatype select_event = KillChanClosed | Accepted net_Conn "go_error option"

subsection \<open>Run and Close\<close>

text \<open>
  A deferred call runs when the function returns or panics, not while it is blocked.
\<close>

definition deferred ::
  "(Server \<Rightarrow> Server outcome) \<Rightarrow> 'a outcome \<times> Server \<Rightarrow> 'a outcome \<times> Server" where
  "deferred f r =
     (case r of
        (Blocks, s) \<Rightarrow> (Blocks, s)
      | (Returns v, s) \<Rightarrow>
          (case f s of Returns s' \<Rightarrow> (Returns v, s') | Blocks \<Rightarrow> (Blocks, s)
           | Panics \<Rightarrow> (Panics, s))
      | (Panics, s) \<Rightarrow>
          (case f s of Returns s' \<Rightarrow> (Panics, s') | Blocks \<Rightarrow> (Blocks, s)
           | Panics \<Rightarrow> (Panics, s)))"

definition close_initChan :: "Server \<Rightarrow> Server outcome" where
  "close_initChan s =
     (case chan_close (initChan s) of
        Returns c \<Rightarrow> Returns (s\<lparr>initChan := c\<rparr>) | Blocks \<Rightarrow> Blocks | Panics \<Rightarrow> Panics)"

definition close_doneChan :: "Server \<Rightarrow> Server outcome" where
  "close_doneChan s =
     (case chan_close (doneChan s) of
        Returns c \<Rightarrow> Returns (s\<lparr>doneChan := c\<rparr>) | Blocks \<Rightarrow> Blocks | Panics \<Rightarrow> Panics)"

definition ln_Close :: "Server \<Rightarrow> Server outcome" where
  "ln_Close s = Returns (s\<lparr>listening := False\<rparr>)"

text \<open>\<open>s.initChan <- v\<close>, then the rest of the function.\<close>

definition send_initChan ::
  "Server \<Rightarrow> go_error option \<Rightarrow> (Server \<Rightarrow> 'a outcome \<times> Server) \<Rightarrow> 'a outcome \<times> Server"
  where
  "send_initChan s v rest =
     (case chan_send (initChan s) v of
        Returns c \<Rightarrow> rest (s\<lparr>initChan := c\<rparr>)
      | Blocks \<Rightarrow> (Blocks, s)
      | Panics \<Rightarrow> (Panics, s))"

text \<open>The loop over \<open>s.config.SSLKeys\<close> (lines 286-294).\<close>

fun load_certs :: "net \<Rightarrow> SSLPair list \<Rightarrow> string list \<Rightarrow> go_error + string list" where
  "load_certs nw [] certs = Inr certs"
| "load_certs nw (pair # rest) certs =
     (case LoadX509KeyPair nw (CertFile pair) (KeyFile pair) of
        Inl err \<Rightarrow>
          Inl (errors_New (''cannot LoadX509KeyPair from '' @ CertFile pair @ '' ''
                             @ KeyFile pair @ '' '' @ fmt_s (Some err)))
      | Inr cer \<Rightarrow> load_certs nw rest (certs @ [cer]))"

text \<open>
  The accept loop (lines 324-358), one \<open>select\<close> per event. \<open>err\<close> is the variable
  declared at line 305 by \<open>ln, err := net.Listen(...)\<close>; line 336 formats it. When
  the events run out the loop is waiting in \<open>select\<close>.
\<close>

fun accept_loop ::
  "tls_Config option \<Rightarrow> go_error option \<Rightarrow> select_event list \<Rightarrow> Server
     \<Rightarrow> go_error option outcome \<times> Server" where
  "accept_loop tlsConfig err [] s = (Blocks, s)"
| "accept_loop tlsConfig err (KillChanClosed # evs) s =
     (Returns None, s\<lparr>killChan := (killChan s)\<lparr>is_closed := True\<rparr>\<rparr>)"
| "accept_loop tlsConfig err (Accepted c connErr # evs) s =
     (if connErr \<noteq> None then
        (Returns (Some (NewStackErrorf (''could not accept in proxy: '' @ fmt_s err))), s)
      else
        (let c1 = (if TCPKeepAlivePeriod (config s) > 0 then
                     (case conn_type c of
                        TCPConn \<Rightarrow> c\<lparr>KeepAlivePeriod := Some (TCPKeepAlivePeriod (config s))\<rparr>
                      | OtherConn \<Rightarrow> c)
                   else c);
             c2 = (if UseSSL (config s) then c1\<lparr>tls_Server := tlsConfig\<rparr> else c1)
         in accept_loop tlsConfig err evs (s\<lparr>sessions := sessions s @ [c2]\<rparr>)))"

text \<open>
  \<open>Server.Run\<close>: the TLS set-up (lines 278-303), then listening and the loop with
  its two deferred calls (305-358), all under the deferred close of \<open>initChan\<close>
  (line 276).
\<close>

definition Run_tls :: "net \<Rightarrow> ServerConfig \<Rightarrow> go_error + tls_Config option" where
  "Run_tls nw cfg =
     (if UseSSL cfg then
        (if length (SSLKeys cfg) = 0 then Inl (errors_New ''no ssl keys configured'')
         else
           (case load_certs nw (SSLKeys cfg) [] of
              Inl returnErr \<Rightarrow> Inl returnErr
            | Inr certs \<Rightarrow>
                Inr (Some \<lparr>Certificates = certs,
                           MinVersion = (if MinTlsVersion cfg \<noteq> 0 then MinTlsVersion cfg
                                         else 0)\<rparr>)))
      else Inr None)"

definition Run_listen ::
  "net \<Rightarrow> tls_Config option \<Rightarrow> select_event list \<Rightarrow> Server
     \<Rightarrow> go_error option outcome \<times> Server" where
  "Run_listen nw tlsConfig evs s =
     (let bindTo = BindHost (config s) @ '':'' @ fmt_d (BindPort (config s));
          (ln, err) = Listen nw bindTo
      in if err \<noteq> None then
           (let returnErr = NewStackErrorf (''cannot start listening in proxy: '' @ fmt_s err)
            in send_initChan s (Some returnErr) (\<lambda>s. (Returns (Some returnErr), s)))
         else
           send_initChan (s\<lparr>Addr := Some ln, listening := True\<rparr>) None
             (\<lambda>s. deferred close_doneChan
                     (deferred ln_Close (accept_loop tlsConfig err evs s))))"

definition Run :: "net \<Rightarrow> select_event list \<Rightarrow> Server \<Rightarrow> go_error option outcome \<times> Server"
  where
  "Run nw evs s =
     deferred close_initChan
       (case Run_tls nw (config s) of
          Inl returnErr \<Rightarrow> send_initChan s (Some returnErr) (\<lambda>s. (Returns (Some returnErr), s))
        | Inr tlsConfig \<Rightarrow> Run_listen nw tlsConfig evs s)"

text \<open>
  \<open>Server.Close\<close>: \<open>close(s.killChan)\<close>, then \<open>\<open><-s.doneChan\<close>\<close>. Called after
  \<open>Run\<close> has returned, no task is left that could close \<open>doneChan\<close>: a receive that
  blocks then blocks forever.
\<close>

definition Close :: "Server \<Rightarrow> unit outcome \<times> Server" where
  "Close s =
     (case chan_close (killChan s) of
        Returns k \<Rightarrow>
          (let s1 = s\<lparr>killChan := k\<rparr> in
           case chan_recv (doneChan s1) of
             Returns (v, d) \<Rightarrow> (Returns (), s1\<lparr>doneChan := d\<rparr>)
           | Blocks \<Rightarrow> (Blocks, s1)
           | Panics \<Rightarrow> (Panics, s1))
      | Blocks \<Rightarrow> (Blocks, s)
      | Panics \<Rightarrow> (Panics, s))"

text \<open>\<open>strings.Contains\<close>, to read error messages.\<close>

primrec Contains :: "string \<Rightarrow> string \<Rightarrow> bool" where
  "Contains [] substr = (substr = [])"
| "Contains (c # cs) substr = (take (length substr) (c # cs) = substr \<or> Contains cs substr)"

section \<open>Vocabulary for the statements\<close>

text \<open>
  The name/value pairs that an argument list \<open>name\<^sub>0, value\<^sub>0, name\<^sub>1, value\<^sub>1, ...\<close>
  gives, in argument order.
\<close>

definition is_string :: "go_value \<Rightarrow> bool" where
  "is_string v = (case v of VString s \<Rightarrow> True | _ \<Rightarrow> False)"

definition name_text :: "go_value \<Rightarrow> string" where
  "name_text v = (case v of VString s \<Rightarrow> s | _ \<Rightarrow> [])"

definition pair_at :: "go_value list \<Rightarrow> nat \<Rightarrow> string \<times> go_value" where
  "pair_at args i = (name_text (args ! (2 * i)), args ! (2 * i + 1))"

definition given_pairs :: "go_value list \<Rightarrow> bson_D" where
  "given_pairs args = map (pair_at args) [0..<length args div 2]"

text \<open>The element added after the pairs: \<open>{ok: 1}\<close>, unless a pair is named "ok".\<close>

definition ok_element :: "bson_D \<Rightarrow> bson_D" where
  "ok_element ps = (if ''ok'' \<in> set (map fst ps) then [] else [(''ok'', VInt 1)])"

subsection \<open>Concrete inputs\<close>

text \<open>
  An environment whose documents are their own wire form and whose writes succeed, a
  fresh session, and a request with a given opcode.
\<close>

definition ex_env :: "bson_D env" where
  "ex_env = \<lparr>SimpleBSONConvert = (\<lambda>d. Inr d), SimpleBSONEmpty = [],
             write_result = (\<lambda>rm c. None)\<rparr>"

definition ex_session :: "bson_D Session" where
  "ex_session = \<lparr>conn = \<lparr>written = []\<rparr>, remoteAddr = ''10.0.0.7:50112'',
                 SSLServerName = ''''\<rparr>"

definition ex_request :: "OpCode \<Rightarrow> Message" where
  "ex_request opcode = \<lparr>Header = \<lparr>Size = 16, RequestID = 42, ResponseTo = 0, OpCode = opcode\<rparr>\<rparr>"

definition ex_mongo_error :: go_error where
  "ex_mongo_error =
     \<lparr>Error = ''not master'', ToBSON = Some [(''ok'', VInt 0), (''code'', VInt 10107)]\<rparr>"

text \<open>The same environment with a codec that rejects every document.\<close>

definition ex_failing_env :: "bson_D env" where
  "ex_failing_env =
     \<lparr>SimpleBSONConvert = (\<lambda>d. Inl (errors_New ''cannot marshal document'')),
      SimpleBSONEmpty = [], write_result = (\<lambda>rm c. None)\<rparr>"

text \<open>A network in which certificates load and listening succeeds, and a plain configuration.\<close>

definition ex_net :: net where
  "ex_net = \<lparr>LoadX509KeyPair = (\<lambda>certFile keyFile. Inr certFile),
             Listen = (\<lambda>bindTo. (bindTo, None))\<rparr>"

definition ex_config :: ServerConfig where
  "ex_config = \<lparr>BindHost = ''127.0.0.1'', BindPort = 27017, UseSSL = False, SSLKeys = [],
                MinTlsVersion = 0, TCPKeepAlivePeriod = 0\<rparr>"

definition ex_accept_error :: go_error where
  "ex_accept_error = errors_New ''accept tcp 127.0.0.1:27017: too many open files''"

section \<open>Properties of the document assembly\<close>

text \<open>
  On a well-formed argument list the loop started at pair \<open>k\<close> appends the remaining
  pairs in order and raises \<open>gotOk\<close> exactly when one of them is named "ok".
\<close>

lemma MakeBSON_loop_valid:
  assumes ev: "even (length args)"
    and names: "\<forall>i<length args. even i \<longrightarrow> is_string (args ! i)"
  shows "k \<le> length args div 2 \<Longrightarrow>
     MakeBSON_loop args (2 * k) doc gotOk =
       Some (Inr (doc @ map (pair_at args) [k..<length args div 2],
                  gotOk \<or> ''ok'' \<in> fst ` pair_at args ` {k..<length args div 2}))"
proof (induction "length args div 2 - k" arbitrary: k doc gotOk)
  case 0
  then have "k = length args div 2" by simp
  with ev have "\<not> 2 * k < length args" by auto
  then show ?case using \<open>k = length args div 2\<close>
    by (subst MakeBSON_loop.simps) simp
next
  case (Suc n)
  then have klt: "k < length args div 2" by simp
  with ev have lt: "2 * k < length args" "2 * k + 1 < length args" by auto
  from names lt have "is_string (args ! (2 * k))" by simp
  then obtain name where nm: "args ! (2 * k) = VString name"
    by (cases "args ! (2 * k)") (simp_all add: is_string_def)
  have pa: "pair_at args k = (name, args ! (2 * k + 1))"
    by (simp add: pair_at_def nm name_text_def)
  have rng: "[k..<length args div 2] = k # [Suc k..<length args div 2]"
    using klt by (simp add: upt_conv_Cons)
  have st: "{k..<length args div 2} = insert k {Suc k..<length args div 2}"
    using klt by auto
  have IH: "MakeBSON_loop args (2 * Suc k) d g =
       Some (Inr (d @ map (pair_at args) [Suc k..<length args div 2],
                  g \<or> ''ok'' \<in> fst ` pair_at args ` {Suc k..<length args div 2}))" for d g
    using Suc.hyps(1)[of "Suc k" d g] Suc.hyps(2) klt by simp
  have "MakeBSON_loop args (2 * k) doc gotOk =
      MakeBSON_loop args (2 * Suc k) (doc @ [(name, args ! (2 * k + 1))])
         (if name = ''ok'' then True else gotOk)"
    using lt nm by (subst MakeBSON_loop.simps) simp
  then show ?case
    unfolding IH rng st using pa by auto
qed

lemma MakeBSON_doc_valid:
  assumes ev: "even (length args)"
    and names: "\<forall>i<length args. even i \<longrightarrow> is_string (args ! i)"
  shows "MakeBSON_doc args = Some (Inr (given_pairs args @ ok_element (given_pairs args)))"
proof -
  have "MakeBSON_loop args 0 [] False =
       Some (Inr (given_pairs args, ''ok'' \<in> fst ` set (given_pairs args)))"
    using MakeBSON_loop_valid[OF ev names, of 0 "[]" False]
    by (simp add: given_pairs_def)
  moreover have "length args mod 2 \<noteq> 1" using ev by presburger
  ultimately show ?thesis
    by (simp add: MakeBSON_doc_def ok_element_def)
qed

text \<open>A name that is not a string stops the loop with an error, wherever it stands.\<close>

lemma MakeBSON_loop_bad_name:
  assumes ev: "even (length args)"
  shows "even idx \<Longrightarrow> idx \<le> i \<Longrightarrow> i < length args \<Longrightarrow> even i \<Longrightarrow> \<not> is_string (args ! i) \<Longrightarrow>
     \<exists>e. MakeBSON_loop args idx doc gotOk = Some (Inl e)"
proof (induction args idx doc gotOk rule: MakeBSON_loop.induct)
  case (1 args idx doc gotOk)
  have lt: "idx < length args" using 1 by simp
  show ?case
  proof (cases "args ! idx")
    case (VString name)
    with 1 have ne: "idx \<noteq> i" by (auto simp: is_string_def)
    with 1 have "idx + 2 \<le> i" by (auto elim!: evenE)
    moreover have "idx + 1 < length args" using \<open>idx + 2 \<le> i\<close> 1 by simp
    ultimately have "\<exists>e. MakeBSON_loop args (idx + 2) (doc @ [(name, args ! (idx + 1))])
          (if name = ''ok'' then True else gotOk) = Some (Inl e)"
      using 1 lt VString by (intro "1.IH") auto
    then show ?thesis
      using lt VString \<open>idx + 1 < length args\<close> by (subst MakeBSON_loop.simps) simp
  qed (use lt in \<open>subst MakeBSON_loop.simps, simp\<close>)+
qed

lemma MakeBSON_doc_invalid:
  assumes "odd (length args) \<or> (\<exists>i<length args. even i \<and> \<not> is_string (args ! i))"
  shows "\<exists>e. MakeBSON_doc args = Some (Inl e)"
proof (cases "odd (length args)")
  case True
  then have "length args mod 2 = 1" by presburger
  then show ?thesis by (simp add: MakeBSON_doc_def)
next
  case False
  with assms obtain i where i: "i < length args" "even i" "\<not> is_string (args ! i)" by auto
  from False have ev: "even (length args)" by simp
  from MakeBSON_loop_bad_name[OF ev _ _ i, of 0 "[]" False]
  obtain e where "MakeBSON_loop args 0 [] False = Some (Inl e)" by auto
  moreover have "length args mod 2 \<noteq> 1" using ev by presburger
  ultimately show ?thesis by (simp add: MakeBSON_doc_def)
qed

text \<open>The parity check keeps the read of \<open>args[idx+1]\<close> in range: no panic.\<close>

lemma MakeBSON_doc_no_panic: "MakeBSON_doc args \<noteq> None"
proof (cases "odd (length args) \<or> (\<exists>i<length args. even i \<and> \<not> is_string (args ! i))")
  case True
  then show ?thesis using MakeBSON_doc_invalid by fastforce
next
  case False
  then show ?thesis using MakeBSON_doc_valid[of args] by auto
qed

lemma given_pairs_names:
  assumes "even (length args)" "\<forall>i<length args. even i \<longrightarrow> is_string (args ! i)"
  shows "''ok'' \<in> set (map fst (given_pairs args)) \<longleftrightarrow>
         (\<exists>i. 2 * i < length args \<and> args ! (2 * i) = VString ''ok'')"
proof -
  have str: "name_text (args ! (2 * i)) = ''ok'' \<longleftrightarrow> args ! (2 * i) = VString ''ok''"
    if "2 * i < length args" for i
  proof -
    from assms(2) that have "is_string (args ! (2 * i))" by simp
    then show ?thesis
      by (cases "args ! (2 * i)") (simp_all add: is_string_def name_text_def)
  qed
  have bound: "i < length args div 2 \<longleftrightarrow> 2 * i < length args" for i
    using assms(1) by auto
  have "''ok'' \<in> set (map fst (given_pairs args)) \<longleftrightarrow>
        (\<exists>i<length args div 2. name_text (args ! (2 * i)) = ''ok'')"
    by (force simp: given_pairs_def pair_at_def image_iff)
  also have "\<dots> \<longleftrightarrow> (\<exists>i. 2 * i < length args \<and> name_text (args ! (2 * i)) = ''ok'')"
    by (simp add: bound)
  also have "\<dots> \<longleftrightarrow> (\<exists>i. 2 * i < length args \<and> args ! (2 * i) = VString ''ok'')"
    using str by blast
  finally show ?thesis .
qed

section \<open>Properties of the accept loop\<close>

lemma accept_loop_doneChan: "doneChan (snd (accept_loop tlsConfig err evs s)) = doneChan s"
  by (induction tlsConfig err evs s rule: accept_loop.induct) (simp_all add: Let_def)

lemma accept_loop_initChan: "initChan (snd (accept_loop tlsConfig err evs s)) = initChan s"
  by (induction tlsConfig err evs s rule: accept_loop.induct) (simp_all add: Let_def)

text \<open>
  Once listening has succeeded on a fresh server, every return of \<open>Run\<close> leaves the
  listening socket closed and \<open>doneChan\<close> closed, so that a receive on it returns.
\<close>

lemma Run_after_listen:
  assumes "Run_tls nw cfg = Inr tlsConfig"
    and "snd (Listen nw (BindHost cfg @ '':'' @ fmt_d (BindPort cfg))) = None"
    and "Run nw evs (NewServer cfg) = (Returns r, s')"
  shows "is_closed (doneChan s') \<and> \<not> listening s' \<and>
         chan_recv (doneChan s') = Returns (None, doneChan s')"
proof -
  define s0 where "s0 = NewServer cfg
       \<lparr>Addr := Some (fst (Listen nw (BindHost cfg @ '':'' @ fmt_d (BindPort cfg)))),
        listening := True, initChan := (make_chan 1)\<lparr>buf := [None]\<rparr>\<rparr>"
  obtain o1 s1 where al: "accept_loop tlsConfig None evs s0 = (o1, s1)"
    by (cases "accept_loop tlsConfig None evs s0")
  have "doneChan s1 = doneChan s0" "initChan s1 = initChan s0"
    using accept_loop_doneChan[of tlsConfig None evs s0]
      accept_loop_initChan[of tlsConfig None evs s0] al by simp_all
  then have d: "doneChan s1 = make_chan 0" and i: "initChan s1 = (make_chan 1)\<lparr>buf := [None]\<rparr>"
    by (simp_all add: s0_def NewServer_def)
  have run: "Run nw evs (NewServer cfg) =
      deferred close_initChan (deferred close_doneChan (deferred ln_Close (o1, s1)))"
    using assms(1,2) al
    by (cases "Listen nw (BindHost cfg @ '':'' @ fmt_d (BindPort cfg))")
       (simp add: Run_def Run_listen_def send_initChan_def chan_send_def NewServer_def
          make_chan_def s0_def)
  show ?thesis
    using assms(3) d i unfolding run
    by (cases o1)
       (auto simp add: make_chan_def deferred_def close_initChan_def close_doneChan_def
          ln_Close_def chan_close_def chan_recv_def)
qed

section \<open>The claims\<close>

text \<open>
  C1 (the success path breaks it). A request whose opcode is \<open>OP_GET_MORE\<close> gets no
  reply frame from \<open>RespondToCommand\<close>: the switch has a case for \<open>OP_QUERY\<close> only,
  so the call returns the unknown-opcode error and leaves the connection as it was. The
  error path, on the same request and document, sends the single-document \<open>OP_REPLY\<close>
  frame with cursor id 0, one document returned and flags 0.
\<close>

theorem RespondToCommand_GET_MORE_unknown_opcode:
  "RespondToCommand env s
     \<lparr>Header = \<lparr>Size = sz, RequestID = rid, ResponseTo = rt, OpCode = OP_GET_MORE\<rparr>\<rparr> doc
     = (Some ErrUnknownOpcode, conn s)
   \<and> RespondWithError_switch env s
     \<lparr>Header = \<lparr>Size = sz, RequestID = rid, ResponseTo = rt, OpCode = OP_GET_MORE\<rparr>\<rparr> doc
     = SendMessage env
         (ReplyMessage \<lparr>Size = 0, RequestID = 17, ResponseTo = rid, OpCode = OP_REPLY\<rparr>
            0 0 0 1 [doc])
         (conn s)"
  by (simp add: RespondToCommand_def RespondWithError_switch_def)

text \<open>
  C2 (the start-up failures break it). On a fresh server with TLS enabled and no
  certificate pair, \<open>Run\<close> returns the "no ssl keys configured" error, which is also
  what the ready channel holds, but it returns before the deferred close of
  \<open>doneChan\<close> is registered: \<open>doneChan\<close> is still open, and \<open>Close\<close> called
  afterwards blocks on it.
\<close>

theorem Run_no_ssl_keys_leaves_doneChan_open:
  "fst (Run nw evs (NewServer (cfg\<lparr>UseSSL := True, SSLKeys := []\<rparr>)))
      = Returns (Some (errors_New ''no ssl keys configured''))
   \<and> buf (initChan (snd (Run nw evs (NewServer (cfg\<lparr>UseSSL := True, SSLKeys := []\<rparr>)))))
      = [Some (errors_New ''no ssl keys configured'')]
   \<and> \<not> is_closed (doneChan (snd (Run nw evs (NewServer (cfg\<lparr>UseSSL := True, SSLKeys := []\<rparr>)))))
   \<and> fst (Close (snd (Run nw evs (NewServer (cfg\<lparr>UseSSL := True, SSLKeys := []\<rparr>)))))
      = Blocks"
  by (simp add: Run_def Run_tls_def NewServer_def send_initChan_def chan_send_def make_chan_def
      deferred_def close_initChan_def chan_close_def Close_def chan_recv_def)

text \<open>
  C3, as stated, fails for \<open>OP_COMMAND_REPLY\<close>: neither switch has a case for it, so
  both respond paths return the unknown-opcode error and write no frame.
\<close>

theorem OP_COMMAND_REPLY_request_gets_no_frame:
  "RespondToCommand ex_env ex_session (ex_request OP_COMMAND_REPLY) [(''ok'', VInt 1)]
     = (Some ErrUnknownOpcode, \<lparr>written = []\<rparr>)
   \<and> RespondWithError ex_env ex_session (ex_request OP_COMMAND_REPLY) None
     = (Some ErrUnknownOpcode, \<lparr>written = []\<rparr>)"
  by (simp add: RespondToCommand_def RespondWithError_def RespondWithError_switch_def
      ex_env_def ex_session_def ex_request_def)

text \<open>
  C3, amended. For a request whose opcode is \<open>OP_COMMAND\<close>, \<open>RespondToCommand\<close>
  sends a command-reply frame whose main document is the given document, whose metadata
  document is the canonical empty document and whose list of output documents is empty;
  \<open>RespondWithError\<close> sends the same frame around the converted error document, or
  returns the conversion error without writing when the codec rejects that document.
  For a request whose opcode is \<open>OP_COMMAND_REPLY\<close>, both paths write nothing and
  return an error: the unknown-opcode error, or on the error path the conversion error.
\<close>

theorem OP_COMMAND_reply_frame:
  "(OpCode (Header m) = OP_COMMAND \<longrightarrow>
      RespondToCommand env s m doc =
        SendMessage env
          (CommandReplyMessage
             \<lparr>Size = 0, RequestID = 17, ResponseTo = RequestID (Header m),
              OpCode = OP_COMMAND_REPLY\<rparr>
             doc (SimpleBSONEmpty env) [])
          (conn s)
      \<and> RespondWithError env s m err =
        (case SimpleBSONConvert env (errBSON err) of
           Inl myErr \<Rightarrow> (Some myErr, conn s)
         | Inr d \<Rightarrow>
             SendMessage env
               (CommandReplyMessage
                  \<lparr>Size = 0, RequestID = 17, ResponseTo = RequestID (Header m),
                   OpCode = OP_COMMAND_REPLY\<rparr>
                  d (SimpleBSONEmpty env) [])
               (conn s)))
   \<and> (OpCode (Header m) = OP_COMMAND_REPLY \<longrightarrow>
      RespondToCommand env s m doc = (Some ErrUnknownOpcode, conn s)
      \<and> RespondWithError env s m err =
        (case SimpleBSONConvert env (errBSON err) of
           Inl myErr \<Rightarrow> (Some myErr, conn s)
         | Inr d \<Rightarrow> (Some ErrUnknownOpcode, conn s)))"
  by (simp add: RespondToCommand_def RespondWithError_def RespondWithError_switch_def
      split: sum.splits)

theorem OP_COMMAND_reply_frame_witness:
  "RespondToCommand ex_env ex_session (ex_request OP_COMMAND) [(''n'', VInt 3)]
     = (None,
        \<lparr>written =
           [CommandReplyMessage
              \<lparr>Size = 0, RequestID = 17, ResponseTo = 42, OpCode = OP_COMMAND_REPLY\<rparr>
              [(''n'', VInt 3)] [] []]\<rparr>)
   \<and> RespondWithError ex_env ex_session (ex_request OP_COMMAND) (Some ex_mongo_error)
     = (None,
        \<lparr>written =
           [CommandReplyMessage
              \<lparr>Size = 0, RequestID = 17, ResponseTo = 42, OpCode = OP_COMMAND_REPLY\<rparr>
              [(''ok'', VInt 0), (''code'', VInt 10107)] [] []]\<rparr>)
   \<and> RespondToCommand ex_env ex_session (ex_request OP_COMMAND_REPLY) [(''n'', VInt 3)]
     = (Some ErrUnknownOpcode, \<lparr>written = []\<rparr>)
   \<and> RespondWithError ex_env ex_session (ex_request OP_COMMAND_REPLY) (Some ex_mongo_error)
     = (Some ErrUnknownOpcode, \<lparr>written = []\<rparr>)"
  using OP_COMMAND_reply_frame
          [of "ex_request OP_COMMAND" ex_env ex_session "[(''n'', VInt 3)]" "Some ex_mongo_error"]
        OP_COMMAND_reply_frame
          [of "ex_request OP_COMMAND_REPLY" ex_env ex_session "[(''n'', VInt 3)]"
              "Some ex_mongo_error"]
  by (simp add: ex_env_def ex_session_def ex_request_def ex_mongo_error_def errBSON_def
      SendMessage_def)

text \<open>
  C4 (the code breaks it). When the first accept after a successful listen reports an
  error, the error that \<open>Run\<close> returns is built from the variable \<open>err\<close> of the
  \<open>net.Listen\<close> call, which is nil there, and not from the accept error: its message is
  the same for every accept error, and does not contain the message of this one.
\<close>

theorem Run_accept_error_not_wrapped:
  "fst (Run ex_net [Accepted c (Some acceptErr)] (NewServer ex_config))
      = Returns (Some (NewStackErrorf ''could not accept in proxy: %!s(<nil>)''))
   \<and> \<not> Contains (Error (NewStackErrorf ''could not accept in proxy: %!s(<nil>)''))
                 (Error ex_accept_error)"
proof
  show "fst (Run ex_net [Accepted c (Some acceptErr)] (NewServer ex_config))
      = Returns (Some (NewStackErrorf ''could not accept in proxy: %!s(<nil>)''))"
    by (simp add: Run_def Run_tls_def Run_listen_def NewServer_def send_initChan_def chan_send_def
        make_chan_def deferred_def close_initChan_def close_doneChan_def ln_Close_def
        chan_close_def ex_net_def ex_config_def fmt_s_def)
  show "\<not> Contains (Error (NewStackErrorf ''could not accept in proxy: %!s(<nil>)''))
                 (Error ex_accept_error)"
    by (simp add: NewStackErrorf_def ex_accept_error_def errors_New_def)
qed

text \<open>
  C5. For an argument list of even length whose even-indexed elements are all strings,
  \<open>RespondToCommandMakeBSON\<close> assembles a document and hands it to the codec (replying
  with the converted document, or returning the codec's error). The document contains
  every given name/value pair; when no given name is "ok" it holds the given pairs and
  one more element, \<open>{ok: 1}\<close>, and when a given name is "ok" it holds the given pairs
  and nothing else.
\<close>

theorem MakeBSON_document_contents:
  assumes "even (length args)"
    and "\<forall>i<length args. even i \<longrightarrow> is_string (args ! i)"
  shows "\<exists>doc. MakeBSON_doc args = Some (Inr doc)
     \<and> RespondToCommandMakeBSON env s m args =
         (case SimpleBSONConvert env doc of
            Inl err \<Rightarrow> Some (Some err, conn s)
          | Inr doc2 \<Rightarrow> Some (RespondToCommand env s m doc2))
     \<and> (\<forall>i. 2 * i + 1 < length args \<longrightarrow>
           (name_text (args ! (2 * i)), args ! (2 * i + 1)) \<in> set doc)
     \<and> ((\<forall>i. 2 * i < length args \<longrightarrow> args ! (2 * i) \<noteq> VString ''ok'') \<longrightarrow>
           mset doc = mset (given_pairs args) + {#(''ok'', VInt 1)#})
     \<and> ((\<exists>i. 2 * i < length args \<and> args ! (2 * i) = VString ''ok'') \<longrightarrow>
           mset doc = mset (given_pairs args))"
proof (intro exI conjI)
  show doc: "MakeBSON_doc args = Some (Inr (given_pairs args @ ok_element (given_pairs args)))"
    by (rule MakeBSON_doc_valid [OF assms])
  show "RespondToCommandMakeBSON env s m args =
         (case SimpleBSONConvert env (given_pairs args @ ok_element (given_pairs args)) of
            Inl err \<Rightarrow> Some (Some err, conn s)
          | Inr doc2 \<Rightarrow> Some (RespondToCommand env s m doc2))"
    by (simp add: RespondToCommandMakeBSON_def doc)
  show "\<forall>i. 2 * i + 1 < length args \<longrightarrow>
          (name_text (args ! (2 * i)), args ! (2 * i + 1))
            \<in> set (given_pairs args @ ok_element (given_pairs args))"
  proof (intro allI impI)
    fix i assume "2 * i + 1 < length args"
    then have "i < length args div 2" by simp
    then have "pair_at args i \<in> set (given_pairs args)"
      by (simp add: given_pairs_def)
    then show "(name_text (args ! (2 * i)), args ! (2 * i + 1))
            \<in> set (given_pairs args @ ok_element (given_pairs args))"
      by (simp add: pair_at_def)
  qed
  show "(\<forall>i. 2 * i < length args \<longrightarrow> args ! (2 * i) \<noteq> VString ''ok'') \<longrightarrow>
          mset (given_pairs args @ ok_element (given_pairs args))
            = mset (given_pairs args) + {#(''ok'', VInt 1)#}"
    using given_pairs_names [OF assms] by (simp add: ok_element_def)
  show "(\<exists>i. 2 * i < length args \<and> args ! (2 * i) = VString ''ok'') \<longrightarrow>
          mset (given_pairs args @ ok_element (given_pairs args)) = mset (given_pairs args)"
    using given_pairs_names [OF assms] by (simp add: ok_element_def)
qed

theorem MakeBSON_document_contents_witness:
  "(\<exists>doc. MakeBSON_doc [VString ''n'', VInt 3] = Some (Inr doc)
       \<and> RespondToCommandMakeBSON ex_env ex_session (ex_request OP_MSG) [VString ''n'', VInt 3]
           = Some (RespondToCommand ex_env ex_session (ex_request OP_MSG) doc)
       \<and> (''n'', VInt 3) \<in> set doc
       \<and> mset doc = {#(''n'', VInt 3), (''ok'', VInt 1)#})
   \<and> (\<exists>doc. MakeBSON_doc [VString ''ok'', VInt 0] = Some (Inr doc)
       \<and> mset doc = {#(''ok'', VInt 0)#})"
proof
  have ev: "even (length [VString ''n'', VInt 3])" by simp
  have names: "\<forall>i<length [VString ''n'', VInt 3]. even i \<longrightarrow> is_string ([VString ''n'', VInt 3] ! i)"
    by (simp add: is_string_def less_Suc_eq)
  have no_ok: "\<forall>i. 2 * i < length [VString ''n'', VInt 3] \<longrightarrow>
                 [VString ''n'', VInt 3] ! (2 * i) \<noteq> VString ''ok''"
  proof (intro allI impI)
    fix i :: nat
    assume "2 * i < length [VString ''n'', VInt 3]"
    then have "i = 0" by simp
    then show "[VString ''n'', VInt 3] ! (2 * i) \<noteq> VString ''ok''" by simp
  qed
  from MakeBSON_document_contents [OF ev names, of ex_env ex_session "ex_request OP_MSG"]
  obtain doc where doc: "MakeBSON_doc [VString ''n'', VInt 3] = Some (Inr doc)"
    and r: "RespondToCommandMakeBSON ex_env ex_session (ex_request OP_MSG) [VString ''n'', VInt 3] =
         (case SimpleBSONConvert ex_env doc of
            Inl err \<Rightarrow> Some (Some err, conn ex_session)
          | Inr doc2 \<Rightarrow> Some (RespondToCommand ex_env ex_session (ex_request OP_MSG) doc2))"
    and mem: "\<forall>i. 2 * i + 1 < length [VString ''n'', VInt 3] \<longrightarrow>
           (name_text ([VString ''n'', VInt 3] ! (2 * i)), [VString ''n'', VInt 3] ! (2 * i + 1))
             \<in> set doc"
    and add: "(\<forall>i. 2 * i < length [VString ''n'', VInt 3] \<longrightarrow>
                 [VString ''n'', VInt 3] ! (2 * i) \<noteq> VString ''ok'') \<longrightarrow>
           mset doc = mset (given_pairs [VString ''n'', VInt 3]) + {#(''ok'', VInt 1)#}"
    by blast
  from mem have "(''n'', VInt 3) \<in> set doc"
    by (simp add: name_text_def)
  moreover from add no_ok have "mset doc = {#(''n'', VInt 3), (''ok'', VInt 1)#}"
    by (simp add: given_pairs_def pair_at_def name_text_def)
  ultimately show "\<exists>doc. MakeBSON_doc [VString ''n'', VInt 3] = Some (Inr doc)
       \<and> RespondToCommandMakeBSON ex_env ex_session (ex_request OP_MSG) [VString ''n'', VInt 3]
           = Some (RespondToCommand ex_env ex_session (ex_request OP_MSG) doc)
       \<and> (''n'', VInt 3) \<in> set doc
       \<and> mset doc = {#(''n'', VInt 3), (''ok'', VInt 1)#}"
    using doc r by (auto simp: ex_env_def)
next
  have ev: "even (length [VString ''ok'', VInt 0])" by simp
  have names: "\<forall>i<length [VString ''ok'', VInt 0]. even i \<longrightarrow> is_string ([VString ''ok'', VInt 0] ! i)"
    by (simp add: is_string_def less_Suc_eq)
  have has_ok: "\<exists>i. 2 * i < length [VString ''ok'', VInt 0] \<and>
                 [VString ''ok'', VInt 0] ! (2 * i) = VString ''ok''"
    by (rule exI [of _ 0]) simp
  from MakeBSON_document_contents [OF ev names, of ex_env ex_session "ex_request OP_MSG"]
  obtain doc where doc: "MakeBSON_doc [VString ''ok'', VInt 0] = Some (Inr doc)"
    and same: "(\<exists>i. 2 * i < length [VString ''ok'', VInt 0] \<and>
                 [VString ''ok'', VInt 0] ! (2 * i) = VString ''ok'') \<longrightarrow>
           mset doc = mset (given_pairs [VString ''ok'', VInt 0])"
    by blast
  from same has_ok have "mset doc = {#(''ok'', VInt 0)#}"
    by (simp add: given_pairs_def pair_at_def name_text_def)
  with doc show "\<exists>doc. MakeBSON_doc [VString ''ok'', VInt 0] = Some (Inr doc)
       \<and> mset doc = {#(''ok'', VInt 0)#}"
    by blast
qed

text \<open>
  C6. For an argument list of odd length, and for one with a value that is not a string
  at an even position, \<open>RespondToCommandMakeBSON\<close> returns an error and leaves the
  connection as it was: the assembly fails before the codec or the serializer is called.
\<close>

theorem MakeBSON_rejects_malformed_arguments:
  assumes "odd (length args) \<or> (\<exists>i<length args. even i \<and> \<not> is_string (args ! i))"
  shows "\<exists>e. MakeBSON_doc args = Some (Inl e)
     \<and> RespondToCommandMakeBSON env s m args = Some (Some e, conn s)"
proof -
  from MakeBSON_doc_invalid [OF assms] obtain e where "MakeBSON_doc args = Some (Inl e)" ..
  then show ?thesis by (simp add: RespondToCommandMakeBSON_def)
qed

theorem MakeBSON_rejects_malformed_arguments_witness:
  "(\<exists>e. RespondToCommandMakeBSON ex_env ex_session (ex_request OP_QUERY)
           [VString ''n'', VInt 3, VString ''m''] = Some (Some e, \<lparr>written = []\<rparr>))
   \<and> (\<exists>e. RespondToCommandMakeBSON ex_env ex_session (ex_request OP_QUERY)
           [VString ''n'', VInt 3, VInt 7, VInt 4] = Some (Some e, \<lparr>written = []\<rparr>))"
proof
  have "odd (length [VString ''n'', VInt 3, VString ''m''])" by simp
  then have "odd (length [VString ''n'', VInt 3, VString ''m''])
     \<or> (\<exists>i<length [VString ''n'', VInt 3, VString ''m'']. even i
           \<and> \<not> is_string ([VString ''n'', VInt 3, VString ''m''] ! i))" ..
  from MakeBSON_rejects_malformed_arguments
         [OF this, of ex_env ex_session "ex_request OP_QUERY"]
  show "\<exists>e. RespondToCommandMakeBSON ex_env ex_session (ex_request OP_QUERY)
           [VString ''n'', VInt 3, VString ''m''] = Some (Some e, \<lparr>written = []\<rparr>)"
    by (auto simp: ex_session_def)
next
  have "2 < length [VString ''n'', VInt 3, VInt 7, VInt 4] \<and> even (2::nat)
          \<and> \<not> is_string ([VString ''n'', VInt 3, VInt 7, VInt 4] ! 2)"
    by (simp add: is_string_def)
  then have "\<exists>i<length [VString ''n'', VInt 3, VInt 7, VInt 4]. even i
           \<and> \<not> is_string ([VString ''n'', VInt 3, VInt 7, VInt 4] ! i)"
    by blast
  then have "odd (length [VString ''n'', VInt 3, VInt 7, VInt 4])
     \<or> (\<exists>i<length [VString ''n'', VInt 3, VInt 7, VInt 4]. even i
           \<and> \<not> is_string ([VString ''n'', VInt 3, VInt 7, VInt 4] ! i))" ..
  from MakeBSON_rejects_malformed_arguments
         [OF this, of ex_env ex_session "ex_request OP_QUERY"]
  show "\<exists>e. RespondToCommandMakeBSON ex_env ex_session (ex_request OP_QUERY)
           [VString ''n'', VInt 3, VInt 7, VInt 4] = Some (Some e, \<lparr>written = []\<rparr>)"
    by (auto simp: ex_session_def)
qed

text \<open>
  C7. \<open>RespondWithError\<close> hands the codec the document \<open>{ok: 1}\<close> for a nil error, the
  error's own document, unchanged, for an error with the error-to-document capability,
  and \<open>{ok: 0, errmsg: message}\<close> for any other error; the converted document is what
  the opcode switch replies with.
\<close>

theorem RespondWithError_document:
  "RespondWithError env s m None =
     (case SimpleBSONConvert env [(''ok'', VInt 1)] of
        Inl myErr \<Rightarrow> (Some myErr, conn s)
      | Inr doc \<Rightarrow> RespondWithError_switch env s m doc)
   \<and> (ToBSON e = Some d \<longrightarrow>
        RespondWithError env s m (Some e) =
          (case SimpleBSONConvert env d of
             Inl myErr \<Rightarrow> (Some myErr, conn s)
           | Inr doc \<Rightarrow> RespondWithError_switch env s m doc))
   \<and> (ToBSON e = None \<longrightarrow>
        RespondWithError env s m (Some e) =
          (case SimpleBSONConvert env [(''ok'', VInt 0), (''errmsg'', VString (Error e))] of
             Inl myErr \<Rightarrow> (Some myErr, conn s)
           | Inr doc \<Rightarrow> RespondWithError_switch env s m doc))"
  by (simp add: RespondWithError_def errBSON_def)

theorem RespondWithError_document_witness:
  "RespondWithError ex_env ex_session (ex_request OP_MSG) (Some ex_mongo_error)
     = (None,
        \<lparr>written =
           [MessageMessage \<lparr>Size = 0, RequestID = 17, ResponseTo = 42, OpCode = OP_MSG\<rparr> 0
              [BodySection [(''ok'', VInt 0), (''code'', VInt 10107)]]]\<rparr>)
   \<and> RespondWithError ex_env ex_session (ex_request OP_MSG) (Some (errors_New ''boom''))
     = (None,
        \<lparr>written =
           [MessageMessage \<lparr>Size = 0, RequestID = 17, ResponseTo = 42, OpCode = OP_MSG\<rparr> 0
              [BodySection [(''ok'', VInt 0), (''errmsg'', VString ''boom'')]]]\<rparr>)"
  using RespondWithError_document
          [of ex_env ex_session "ex_request OP_MSG" ex_mongo_error
              "[(''ok'', VInt 0), (''code'', VInt 10107)]"]
        RespondWithError_document
          [of ex_env ex_session "ex_request OP_MSG" "errors_New ''boom''" "[]"]
  by (simp add: ex_env_def ex_session_def ex_request_def ex_mongo_error_def errors_New_def
      RespondWithError_switch_def SendMessage_def)

text \<open>
  C8, as stated, fails on the error path: \<open>RespondWithError\<close> converts the error
  document before it looks at the opcode and returns the codec's error when the
  conversion fails (lines 204-207). With a codec that rejects the document, an
  \<open>OP_INSERT\<close> request gets that error back, not nil; nothing is written.
\<close>

theorem legacy_write_conversion_error_is_returned:
  "RespondWithError ex_failing_env ex_session (ex_request OP_INSERT) (Some ex_mongo_error)
     = (Some (errors_New ''cannot marshal document''), \<lparr>written = []\<rparr>)"
  by (simp add: RespondWithError_def ex_failing_env_def ex_session_def)

text \<open>
  C8, amended. For a request whose opcode is \<open>OP_INSERT\<close>, \<open>OP_UPDATE\<close> or
  \<open>OP_DELETE\<close>, \<open>RespondToCommand\<close> returns nil and leaves the connection as it
  was, for every document; \<open>RespondWithError\<close> leaves the connection as it was for
  every error argument, returns nil when the codec converts the error's document, and
  returns the codec's error when it does not.
\<close>

theorem legacy_writes_get_no_reply:
  assumes "OpCode (Header m) = OP_INSERT \<or> OpCode (Header m) = OP_UPDATE
             \<or> OpCode (Header m) = OP_DELETE"
  shows "RespondToCommand env s m doc = (None, conn s)
     \<and> snd (RespondWithError env s m err) = conn s
     \<and> fst (RespondWithError env s m err) =
         (case SimpleBSONConvert env (errBSON err) of Inl myErr \<Rightarrow> Some myErr | Inr d \<Rightarrow> None)"
  using assms
  by (auto simp: RespondToCommand_def RespondWithError_def RespondWithError_switch_def
      split: sum.splits)

theorem legacy_writes_get_no_reply_witness:
  "RespondToCommand ex_env ex_session (ex_request OP_INSERT) [(''n'', VInt 3)]
     = (None, \<lparr>written = []\<rparr>)
   \<and> RespondWithError ex_env ex_session (ex_request OP_INSERT) (Some (errors_New ''boom''))
     = (None, \<lparr>written = []\<rparr>)
   \<and> RespondWithError ex_failing_env ex_session (ex_request OP_INSERT)
       (Some (errors_New ''boom''))
     = (Some (errors_New ''cannot marshal document''), \<lparr>written = []\<rparr>)"
proof -
  have op: "OpCode (Header (ex_request OP_INSERT)) = OP_INSERT
      \<or> OpCode (Header (ex_request OP_INSERT)) = OP_UPDATE
      \<or> OpCode (Header (ex_request OP_INSERT)) = OP_DELETE"
    by (simp add: ex_request_def)
  from legacy_writes_get_no_reply
         [OF op, of ex_env ex_session "[(''n'', VInt 3)]" "Some (errors_New ''boom'')"]
       legacy_writes_get_no_reply
         [OF op, of ex_failing_env ex_session "[(''n'', VInt 3)]" "Some (errors_New ''boom'')"]
  show ?thesis
    by (simp add: ex_env_def ex_failing_env_def ex_session_def prod_eq_iff)
qed

text \<open>
  C9. Whatever the request, the frames that \<open>RespondToCommand\<close> and
  \<open>RespondWithError\<close> add to the connection all carry a header whose \<open>ResponseTo\<close>
  is the request id of the request.
\<close>

theorem reply_header_ResponseTo:
  "(\<exists>new. written (snd (RespondToCommand env s m doc)) = written (conn s) @ new
       \<and> list_all (\<lambda>rm. ResponseTo (header_of rm) = RequestID (Header m)) new)
   \<and> (\<exists>new. written (snd (RespondWithError env s m err)) = written (conn s) @ new
       \<and> list_all (\<lambda>rm. ResponseTo (header_of rm) = RequestID (Header m)) new)"
proof
  show "\<exists>new. written (snd (RespondToCommand env s m doc)) = written (conn s) @ new
       \<and> list_all (\<lambda>rm. ResponseTo (header_of rm) = RequestID (Header m)) new"
    by (cases "OpCode (Header m)") (simp_all add: RespondToCommand_def SendMessage_def)
  show "\<exists>new. written (snd (RespondWithError env s m err)) = written (conn s) @ new
       \<and> list_all (\<lambda>rm. ResponseTo (header_of rm) = RequestID (Header m)) new"
    by (cases "OpCode (Header m)"; cases "SimpleBSONConvert env (errBSON err)")
       (simp_all add: RespondWithError_def RespondWithError_switch_def SendMessage_def)
qed

theorem reply_header_ResponseTo_witness:
  "\<exists>new. written (snd (RespondToCommand ex_env ex_session (ex_request OP_QUERY)
                         [(''n'', VInt 3)])) = new
     \<and> length new = 1
     \<and> list_all (\<lambda>rm. ResponseTo (header_of rm) = 42) new"
proof -
  from reply_header_ResponseTo
         [of ex_env ex_session "ex_request OP_QUERY" "[(''n'', VInt 3)]" None]
  obtain new where
    w: "written (snd (RespondToCommand ex_env ex_session (ex_request OP_QUERY)
                        [(''n'', VInt 3)])) = written (conn ex_session) @ new"
    and h: "list_all (\<lambda>rm. ResponseTo (header_of rm) = RequestID (Header (ex_request OP_QUERY)))
              new"
    by blast
  have "length (written (snd (RespondToCommand ex_env ex_session (ex_request OP_QUERY)
                                [(''n'', VInt 3)]))) = 1"
    by (simp add: RespondToCommand_def SendMessage_def ex_request_def ex_session_def)
  with w have "length new = 1" by (simp add: ex_session_def)
  with w h show ?thesis by (simp add: ex_session_def ex_request_def)
qed

text \<open>
  C10. For an argument list of even length whose even-indexed elements are all strings,
  the document that \<open>RespondToCommandMakeBSON\<close> assembles and hands to the codec is the
  given pairs in argument order, followed, when no given name is "ok", by one last
  element with the name "ok" and the integer value 1. For the empty argument list it is
  exactly \<open>{ok: 1}\<close>.
\<close>

theorem MakeBSON_document_order:
  "(even (length args) \<and> (\<forall>i<length args. even i \<longrightarrow> is_string (args ! i)) \<longrightarrow>
      MakeBSON_doc args =
        Some (Inr (map (\<lambda>i. (name_text (args ! (2 * i)), args ! (2 * i + 1)))
                     [0..<length args div 2]
                   @ (if \<exists>i. 2 * i < length args \<and> args ! (2 * i) = VString ''ok'' then []
                      else [(''ok'', VInt 1)])))
      \<and> RespondToCommandMakeBSON env s m args =
        (case SimpleBSONConvert env
                (map (\<lambda>i. (name_text (args ! (2 * i)), args ! (2 * i + 1)))
                   [0..<length args div 2]
                 @ (if \<exists>i. 2 * i < length args \<and> args ! (2 * i) = VString ''ok'' then []
                    else [(''ok'', VInt 1)])) of
           Inl err \<Rightarrow> Some (Some err, conn s)
         | Inr doc2 \<Rightarrow> Some (RespondToCommand env s m doc2)))
   \<and> MakeBSON_doc [] = Some (Inr [(''ok'', VInt 1)])
   \<and> RespondToCommandMakeBSON env s m [] =
        (case SimpleBSONConvert env [(''ok'', VInt 1)] of
           Inl err \<Rightarrow> Some (Some err, conn s)
         | Inr doc2 \<Rightarrow> Some (RespondToCommand env s m doc2))"
proof (intro conjI impI)
  assume h: "even (length args) \<and> (\<forall>i<length args. even i \<longrightarrow> is_string (args ! i))"
  then have ev: "even (length args)"
    and names: "\<forall>i<length args. even i \<longrightarrow> is_string (args ! i)" by simp_all
  have gp: "given_pairs args =
      map (\<lambda>i. (name_text (args ! (2 * i)), args ! (2 * i + 1))) [0..<length args div 2]"
    by (simp add: given_pairs_def pair_at_def)
  have ok: "ok_element (given_pairs args) =
      (if \<exists>i. 2 * i < length args \<and> args ! (2 * i) = VString ''ok'' then []
       else [(''ok'', VInt 1)])"
    unfolding ok_element_def given_pairs_names [OF ev names] ..
  have ok': "ok_element
        (map (\<lambda>i. (name_text (args ! (2 * i)), args ! (2 * i + 1))) [0..<length args div 2]) =
      (if \<exists>i. 2 * i < length args \<and> args ! (2 * i) = VString ''ok'' then []
       else [(''ok'', VInt 1)])"
    using ok unfolding gp .
  show doc: "MakeBSON_doc args =
        Some (Inr (map (\<lambda>i. (name_text (args ! (2 * i)), args ! (2 * i + 1)))
                     [0..<length args div 2]
                   @ (if \<exists>i. 2 * i < length args \<and> args ! (2 * i) = VString ''ok'' then []
                      else [(''ok'', VInt 1)])))"
    using MakeBSON_doc_valid [OF ev names] unfolding gp ok' .
  show "RespondToCommandMakeBSON env s m args =
        (case SimpleBSONConvert env
                (map (\<lambda>i. (name_text (args ! (2 * i)), args ! (2 * i + 1)))
                   [0..<length args div 2]
                 @ (if \<exists>i. 2 * i < length args \<and> args ! (2 * i) = VString ''ok'' then []
                    else [(''ok'', VInt 1)])) of
           Inl err \<Rightarrow> Some (Some err, conn s)
         | Inr doc2 \<Rightarrow> Some (RespondToCommand env s m doc2))"
    unfolding RespondToCommandMakeBSON_def doc by simp
next
  show e: "MakeBSON_doc [] = Some (Inr [(''ok'', VInt 1)])"
    by (simp add: MakeBSON_doc_def MakeBSON_loop.simps)
  show "RespondToCommandMakeBSON env s m [] =
        (case SimpleBSONConvert env [(''ok'', VInt 1)] of
           Inl err \<Rightarrow> Some (Some err, conn s)
         | Inr doc2 \<Rightarrow> Some (RespondToCommand env s m doc2))"
    unfolding RespondToCommandMakeBSON_def e by simp
qed

theorem MakeBSON_document_order_witness:
  "MakeBSON_doc [VString ''ismaster'', VBool True, VString ''maxWireVersion'', VInt 5]
     = Some (Inr [(''ismaster'', VBool True), (''maxWireVersion'', VInt 5), (''ok'', VInt 1)])
   \<and> RespondToCommandMakeBSON ex_env ex_session (ex_request OP_INSERT)
       [VString ''ismaster'', VBool True, VString ''maxWireVersion'', VInt 5]
     = Some (None, \<lparr>written = []\<rparr>)"
proof -
  let ?args = "[VString ''ismaster'', VBool True, VString ''maxWireVersion'', VInt 5]"
  have h: "even (length ?args) \<and> (\<forall>i<length ?args. even i \<longrightarrow> is_string (?args ! i))"
    by (simp add: is_string_def less_Suc_eq)
  have no_ok: "\<not> (\<exists>i. 2 * i < length ?args \<and> ?args ! (2 * i) = VString ''ok'')"
  proof
    assume "\<exists>i. 2 * i < length ?args \<and> ?args ! (2 * i) = VString ''ok''"
    then obtain i where "2 * i < length ?args" "?args ! (2 * i) = VString ''ok''" by blast
    then have "i = 0 \<or> i = 1" by auto
    with \<open>?args ! (2 * i) = VString ''ok''\<close> show False by auto
  qed
  have rng: "[0..<length ?args div 2] = [0, 1]"
    by (simp add: upt_rec)
  from MakeBSON_document_order [of ?args ex_env ex_session "ex_request OP_INSERT"] h
  have "MakeBSON_doc ?args =
        Some (Inr (map (\<lambda>i. (name_text (?args ! (2 * i)), ?args ! (2 * i + 1)))
                     [0..<length ?args div 2]
                   @ (if \<exists>i. 2 * i < length ?args \<and> ?args ! (2 * i) = VString ''ok'' then []
                      else [(''ok'', VInt 1)])))"
    and "RespondToCommandMakeBSON ex_env ex_session (ex_request OP_INSERT) ?args =
        (case SimpleBSONConvert ex_env
                (map (\<lambda>i. (name_text (?args ! (2 * i)), ?args ! (2 * i + 1)))
                   [0..<length ?args div 2]
                 @ (if \<exists>i. 2 * i < length ?args \<and> ?args ! (2 * i) = VString ''ok'' then []
                    else [(''ok'', VInt 1)])) of
           Inl err \<Rightarrow> Some (Some err, conn ex_session)
         | Inr doc2 \<Rightarrow> Some (RespondToCommand ex_env ex_session (ex_request OP_INSERT) doc2))"
    by blast+
  then show ?thesis
    unfolding if_not_P [OF no_ok] rng
    by (simp_all add: name_text_def ex_env_def RespondToCommand_def ex_request_def
        ex_session_def)
qed

end
